theory Spec2Isabelle
  imports Complex_Main "HOL-Library.Multiset"
begin

section \<open>JavaScript values\<close>

text \<open>
  The program is a Node.js service (\<^verbatim>\<open>src/script.js\<close>) that stores face
  descriptors in SQLite and matches a query descriptor against them.

  A JavaScript Number is modelled by \<open>jsnum\<close>: a finite value carries the real number it
  denotes, and the three special values \<open>Infinity\<close>, \<open>-Infinity\<close> and \<open>NaN\<close> are
  constructors of their own, because the control flow of the matcher depends on them
  (\<open>bestMatch\<close> starts at \<open>Infinity\<close>, a read past the end of an array yields \<open>NaN\<close>).
  The sign of zero is not modelled. The operators below give the exact result on finite
  values; where the program computes a distance, every result is rounded to a double
  (\<open>to_double\<close>, further down), so that a sum can absorb a small term and a product can
  overflow to \<open>Infinity\<close>, as in the source. The confidence (line 160) is evaluated
  with the exact operators.
\<close>

datatype jsnum = Fin real | PInf | NInf | NaN

text \<open>The operators \<^verbatim>\<open>-\<close>, \<^verbatim>\<open>+\<close>, \<^verbatim>\<open>*\<close>, \<^verbatim>\<open><\<close>, \<^verbatim>\<open><=\<close>,
  \<^verbatim>\<open>Math.sqrt\<close> and \<^verbatim>\<open>Math.max\<close> on Numbers.\<close>

fun js_neg :: "jsnum \<Rightarrow> jsnum" where
  "js_neg (Fin a) = Fin (- a)"
| "js_neg PInf = NInf"
| "js_neg NInf = PInf"
| "js_neg NaN = NaN"

fun js_add :: "jsnum \<Rightarrow> jsnum \<Rightarrow> jsnum" where
  "js_add NaN y = NaN"
| "js_add x NaN = NaN"
| "js_add (Fin a) (Fin b) = Fin (a + b)"
| "js_add (Fin a) PInf = PInf"
| "js_add (Fin a) NInf = NInf"
| "js_add PInf (Fin b) = PInf"
| "js_add PInf PInf = PInf"
| "js_add PInf NInf = NaN"
| "js_add NInf (Fin b) = NInf"
| "js_add NInf NInf = NInf"
| "js_add NInf PInf = NaN"

definition js_sub :: "jsnum \<Rightarrow> jsnum \<Rightarrow> jsnum" where
  "js_sub x y = js_add x (js_neg y)"

fun js_sign :: "jsnum \<Rightarrow> int" where
  "js_sign (Fin a) = (if a < 0 then - 1 else if a = 0 then 0 else 1)"
| "js_sign PInf = 1"
| "js_sign NInf = - 1"
| "js_sign NaN = 0"

fun js_mul :: "jsnum \<Rightarrow> jsnum \<Rightarrow> jsnum" where
  "js_mul NaN y = NaN"
| "js_mul x NaN = NaN"
| "js_mul (Fin a) (Fin b) = Fin (a * b)"
| "js_mul x y =
     (if js_sign x * js_sign y = 0 then NaN
      else if js_sign x * js_sign y < 0 then NInf else PInf)"

fun js_sqrt :: "jsnum \<Rightarrow> jsnum" where
  "js_sqrt (Fin a) = (if a < 0 then NaN else Fin (sqrt a))"
| "js_sqrt PInf = PInf"
| "js_sqrt NInf = NaN"
| "js_sqrt NaN = NaN"

fun js_lt :: "jsnum \<Rightarrow> jsnum \<Rightarrow> bool" where
  "js_lt NaN y = False"
| "js_lt x NaN = False"
| "js_lt (Fin a) (Fin b) = (a < b)"
| "js_lt (Fin a) PInf = True"
| "js_lt (Fin a) NInf = False"
| "js_lt PInf y = False"
| "js_lt NInf (Fin b) = True"
| "js_lt NInf PInf = True"
| "js_lt NInf NInf = False"

fun js_le :: "jsnum \<Rightarrow> jsnum \<Rightarrow> bool" where
  "js_le NaN y = False"
| "js_le x NaN = False"
| "js_le x y = (\<not> js_lt y x)"

fun js_max :: "jsnum \<Rightarrow> jsnum \<Rightarrow> jsnum" where
  "js_max NaN y = NaN"
| "js_max x NaN = NaN"
| "js_max x y = (if js_lt x y then y else x)"

subsection \<open>Double precision\<close>

text \<open>
  A Number is an IEEE-754 double: a value \<open>m * 2\<^sup>e\<close> with \<open>\<bar>m\<bar> < 2\<^sup>5\<^sup>3\<close> and
  \<open>-1074 \<le> e \<le> 971\<close>, or one of the special values. \<open>to_double\<close> rounds a real to
  the nearest double, a tie going to the even significand: the spacing of the doubles
  around \<open>x\<close> is \<open>2\<^sup>q\<close> for \<open>q = quantum x\<close> (the binade of \<open>x\<close>, not below that of the
  subnormal numbers, less 52), and a magnitude of \<open>2\<^sup>1\<^sup>0\<^sup>2\<^sup>4 - 2\<^sup>9\<^sup>7\<^sup>0\<close> or more rounds to an
  infinity. \<open>fl\<close> applies it to the result of an operation.
\<close>

definition round_half_even :: "real \<Rightarrow> int" where
  "round_half_even y =
     (let f = \<lfloor>y\<rfloor>; r = y - of_int f
      in if r < 1 / 2 then f else if 1 / 2 < r then f + 1 else if even f then f else f + 1)"

fun binade :: "real \<Rightarrow> nat \<Rightarrow> int" where
  "binade x 0 = - 1022"
| "binade x (Suc k) =
     (if power_int 2 (int k - 1021) \<le> x then int k - 1021 else binade x k)"

definition quantum :: "real \<Rightarrow> int" where
  "quantum x = binade \<bar>x\<bar> 2045 - 52"

definition to_double :: "real \<Rightarrow> jsnum" where
  "to_double x =
     (if 2 ^ 1024 - 2 ^ 970 \<le> \<bar>x\<bar> then (if x < 0 then NInf else PInf)
      else Fin (sgn x * of_int (round_half_even (\<bar>x\<bar> / power_int 2 (quantum x)))
                  * power_int 2 (quantum x)))"

fun fl :: "jsnum \<Rightarrow> jsnum" where
  "fl (Fin a) = to_double a"
| "fl x = x"

subsection \<open>Other values\<close>

text \<open>
  The other values that reach the modelled code: a field of a request body that is
  missing (\<open>Undefined\<close>), \<open>null\<close>, a boolean, a number or a string. Objects and arrays
  as field values are not modelled.
\<close>

datatype jsval = Undefined | Null | Boolean bool | Number jsnum | String string

text \<open>Truthiness, as the operators \<^verbatim>\<open>!\<close> and \<^verbatim>\<open>||\<close> test it.\<close>

fun truthy :: "jsval \<Rightarrow> bool" where
  "truthy Undefined = False"
| "truthy Null = False"
| "truthy (Boolean b) = b"
| "truthy (Number (Fin a)) = (a \<noteq> 0)"
| "truthy (Number NaN) = False"
| "truthy (Number x) = True"
| "truthy (String s) = (s \<noteq> [])"

text \<open>
  \<open>ToNumber\<close> is the coercion that \<^verbatim>\<open><\<close> and \<^verbatim>\<open>-\<close> apply to an operand that is not
  a Number. The conversion of a string (the runtime's numeric-literal parser) is not code
  of this program: it is the parameter \<open>s2n\<close>.
\<close>

fun ToNumber :: "(string \<Rightarrow> jsnum) \<Rightarrow> jsval \<Rightarrow> jsnum" where
  "ToNumber s2n Undefined = NaN"
| "ToNumber s2n Null = Fin 0"
| "ToNumber s2n (Boolean b) = (if b then Fin 1 else Fin 0)"
| "ToNumber s2n (Number x) = x"
| "ToNumber s2n (String s) = s2n s"


section \<open>The SQLite database\<close>

text \<open>
  The two tables created by \<^verbatim>\<open>initializeDatabase\<close>. A row of \<open>faces\<close> holds the
  descriptor as JSON text; the text is modelled by the sequence of component values it
  denotes, each a JSON number or \<open>null\<close>. Timestamps are \<open>CURRENT_TIMESTAMP\<close> values,
  whole seconds, modelled as a natural number.
\<close>

datatype json = JNull | JNum real

record face_row =
  face_id :: int
  face_name :: string
  face_descriptor :: "json list"
  face_timestamp :: nat
  face_image_path :: string

record log_row =
  log_id :: int
  log_matched_name :: string
  log_confidence :: jsnum
  log_timestamp :: nat
  log_status :: string

text \<open>
  The state of the database handle \<open>db\<close>: the rows of both tables in rowid order, the
  \<open>AUTOINCREMENT\<close> counters (the largest id ever assigned in each table), the current
  time of the engine, and \<open>fault\<close>, the error the driver hands to the callback of a
  statement (\<open>None\<close> when the statement succeeds).
\<close>

record database =
  faces :: "face_row list"
  faces_seq :: int
  recognition_logs :: "log_row list"
  logs_seq :: int
  clock :: nat
  fault :: "string option"

text \<open>A promise settles as \<open>Inl err\<close> (rejected) or \<open>Inr v\<close> (resolved).\<close>

type_synonym 'a promise = "string + 'a"

text \<open>
  \<^verbatim>\<open>JSON.stringify\<close> of a descriptor: a finite number is written as a number, and
  \<open>NaN\<close>, \<open>Infinity\<close> and \<open>-Infinity\<close> are written as \<open>null\<close>.
  \<^verbatim>\<open>JSON.parse\<close> reads the components back as JavaScript values.
\<close>

fun json_of_number :: "jsnum \<Rightarrow> json" where
  "json_of_number (Fin a) = JNum a"
| "json_of_number x = JNull"

definition JSON_stringify :: "jsnum list \<Rightarrow> json list" where
  "JSON_stringify descriptor = map json_of_number descriptor"

fun value_of_json :: "json \<Rightarrow> jsval" where
  "value_of_json JNull = Null"
| "value_of_json (JNum a) = Number (Fin a)"

definition JSON_parse :: "json list \<Rightarrow> jsval list" where
  "JSON_parse doc = map value_of_json doc"

subsection \<open>Descriptor store\<close>

text \<open>\<^verbatim>\<open>registerFace\<close> (lines 86-100): one \<open>INSERT\<close>, no check of the descriptor.\<close>

definition registerFace ::
  "database \<Rightarrow> string \<Rightarrow> jsnum list \<Rightarrow> string \<Rightarrow> int promise \<times> database" where
  "registerFace db name descriptor imagePath =
     (let descriptorJSON = JSON_stringify descriptor in
      case fault db of
        Some err \<Rightarrow> (Inl err, db)
      | None \<Rightarrow>
          (let lastID = faces_seq db + 1 in
           (Inr lastID,
            db\<lparr>faces := faces db @
                  [\<lparr>face_id = lastID, face_name = name, face_descriptor = descriptorJSON,
                    face_timestamp = clock db, face_image_path = imagePath\<rparr>],
               faces_seq := lastID\<rparr>)))"

text \<open>\<^verbatim>\<open>getAllFaces\<close> (lines 103-120): every row, with the descriptor parsed.\<close>

record registered =
  reg_id :: int
  reg_name :: string
  reg_descriptor :: "jsval list"

definition getAllFaces :: "database \<Rightarrow> registered list promise" where
  "getAllFaces db =
     (case fault db of
        Some err \<Rightarrow> Inl err
      | None \<Rightarrow>
          Inr (map (\<lambda>row. \<lparr>reg_id = face_id row, reg_name = face_name row,
                            reg_descriptor = JSON_parse (face_descriptor row)\<rparr>)
                 (faces db)))"

text \<open>\<^verbatim>\<open>deleteFace\<close> (lines 212-225): one \<open>DELETE\<close>; the number of rows it
  removed is not looked at.\<close>

definition deleteFace :: "database \<Rightarrow> int \<Rightarrow> bool promise \<times> database" where
  "deleteFace db faceId =
     (case fault db of
        Some err \<Rightarrow> (Inl err, db)
      | None \<Rightarrow> (Inr True, db\<lparr>faces := filter (\<lambda>row. face_id row \<noteq> faceId) (faces db)\<rparr>))"

subsection \<open>Recognition ledger\<close>

text \<open>\<^verbatim>\<open>logRecognition\<close> (lines 181-194).\<close>

definition logRecognition ::
  "database \<Rightarrow> string \<Rightarrow> jsnum \<Rightarrow> bool \<Rightarrow> int promise \<times> database" where
  "logRecognition db matchedName confidence status =
     (let statusText = (if status then ''matched'' else ''unmatched'') in
      case fault db of
        Some err \<Rightarrow> (Inl err, db)
      | None \<Rightarrow>
          (let lastID = logs_seq db + 1 in
           (Inr lastID,
            db\<lparr>recognition_logs := recognition_logs db @
                  [\<lparr>log_id = lastID, log_matched_name = matchedName,
                    log_confidence = confidence, log_timestamp = clock db,
                    log_status = statusText\<rparr>],
               logs_seq := lastID\<rparr>)))"

text \<open>
  \<^verbatim>\<open>getRecognitionHistory\<close> (lines 197-209):
  \<^verbatim>\<open>SELECT * FROM recognition_logs ORDER BY timestamp DESC LIMIT ?\<close>.
  SQL leaves the order of rows with equal timestamps open; SQLite returns them in rowid
  order, and so does the model. The limit is an integer, or omitted (\<open>None\<close>), which
  selects the default 50. SQLite takes the limit as a 64-bit integer: a value outside
  that range is refused with a datatype mismatch, and a negative one is no limit.
\<close>

definition order_by_timestamp_desc :: "log_row list \<Rightarrow> log_row list" where
  "order_by_timestamp_desc rows = sort_key (\<lambda>row. - int (log_timestamp row)) rows"

definition sql_limit :: "int \<Rightarrow> 'a list \<Rightarrow> 'a list" where
  "sql_limit n rows = (if n < 0 then rows else take (nat n) rows)"

definition getRecognitionHistory :: "database \<Rightarrow> int option \<Rightarrow> log_row list promise" where
  "getRecognitionHistory db limit =
     (let limit = (case limit of None \<Rightarrow> 50 | Some n \<Rightarrow> n) in
      case fault db of
        Some err \<Rightarrow> Inl err
      | None \<Rightarrow>
          if limit \<le> - (2 ^ 63) \<or> 2 ^ 63 \<le> limit
          then Inl ''SQLITE_MISMATCH: datatype mismatch''
          else Inr (sql_limit limit (order_by_timestamp_desc (recognition_logs db))))"

section \<open>Matcher\<close>

text \<open>
  \<^verbatim>\<open>calculateDistance\<close> (lines 123-130). \<open>descriptor1\<close> is the array of numbers the
  extractor produced; \<open>descriptor2\<close> is a parsed stored descriptor. A read past the end
  of \<open>descriptor2\<close> is \<open>undefined\<close>, which the subtraction coerces to \<open>NaN\<close>.
  The difference, its square, the running sum and the square root are each rounded to a
  double. The loop variable \<open>sum\<close> of the source is \<open>s\<close> here.
\<close>

definition index :: "jsval list \<Rightarrow> nat \<Rightarrow> jsval" where
  "index xs i = (if i < length xs then xs ! i else Undefined)"

function calculateDistance_for ::
  "(string \<Rightarrow> jsnum) \<Rightarrow> jsnum list \<Rightarrow> jsval list \<Rightarrow> nat \<Rightarrow> jsnum \<Rightarrow> jsnum" where
  "calculateDistance_for s2n descriptor1 descriptor2 i s =
     (if i < length descriptor1 then
        (let diff = fl (js_sub (descriptor1 ! i) (ToNumber s2n (index descriptor2 i))) in
         calculateDistance_for s2n descriptor1 descriptor2 (i + 1)
           (fl (js_add s (fl (js_mul diff diff)))))
      else s)"
  by pat_completeness auto
termination
  by (relation "measure (\<lambda>(s2n, descriptor1, descriptor2, i, s). length descriptor1 - i)") auto

declare calculateDistance_for.simps [simp del]

definition calculateDistance ::
  "(string \<Rightarrow> jsnum) \<Rightarrow> jsnum list \<Rightarrow> jsval list \<Rightarrow> jsnum" where
  "calculateDistance s2n descriptor1 descriptor2 =
     fl (js_sqrt (calculateDistance_for s2n descriptor1 descriptor2 0 (Fin 0)))"

text \<open>The inner loop of \<^verbatim>\<open>recognizeFace\<close> (lines 146-157).\<close>

record bestMatch =
  bm_name :: string
  bm_distance :: jsnum

fun findBest ::
  "(string \<Rightarrow> jsnum) \<Rightarrow> jsnum list \<Rightarrow> registered list \<Rightarrow> bestMatch \<Rightarrow> bestMatch" where
  "findBest s2n inputDescriptor [] best = best"
| "findBest s2n inputDescriptor (registeredFace # rest) best =
     (let distance = calculateDistance s2n inputDescriptor (reg_descriptor registeredFace) in
      findBest s2n inputDescriptor rest
        (if js_lt distance (bm_distance best)
         then \<lparr>bm_name = reg_name registeredFace, bm_distance = distance\<rparr>
         else best))"


text \<open>
  \<^verbatim>\<open>Number.prototype.toFixed(2)\<close>: the integer \<open>n\<close> for which \<open>n / 100\<close> is closest
  to the value (the larger one of two equally close), written in decimal with two digits
  after the point. For a value of \<open>10\<^sup>2\<^sup>1\<close> or more JavaScript switches to the
  exponent notation, which is not modelled: the values formatted here lie in \<open>[0, 100]\<close>.
\<close>

definition digit :: "nat \<Rightarrow> char" where
  "digit d = ''0123456789'' ! d"

function digits :: "nat \<Rightarrow> string" where
  "digits n = (if n < 10 then [digit n] else digits (n div 10) @ [digit (n mod 10)])"
  by pat_completeness auto
termination
  by (relation "measure (\<lambda>n. n)") auto

declare digits.simps [simp del]

definition round2 :: "real \<Rightarrow> nat" where
  "round2 x = nat \<lfloor>x * 100 + 1 / 2\<rfloor>"

fun toFixed2 :: "jsnum \<Rightarrow> string" where
  "toFixed2 NaN = ''NaN''"
| "toFixed2 PInf = ''Infinity''"
| "toFixed2 NInf = ''-Infinity''"
| "toFixed2 (Fin x) =
     (let sign = (if x < 0 then ''-'' else []);
          m = digits (round2 \<bar>x\<bar>);
          m = (if length m \<le> 2 then replicate (3 - length m) (CHR ''0'') @ m else m);
          k = length m
      in sign @ take (k - 2) m @ ''.'' @ drop (k - 2) m)"

declare toFixed2.simps [simp del]

text \<open>The confidence of a best distance (line 160):
  \<^verbatim>\<open>Math.max(0, 100 - (bestMatch.distance * 100))\<close>.\<close>

definition confidenceOf :: "jsnum \<Rightarrow> jsnum" where
  "confidenceOf distance = js_max (Fin 0) (js_sub (Fin 100) (js_mul distance (Fin 100)))"

text \<open>
  The body of the outer loop of \<^verbatim>\<open>recognizeFace\<close> for one detection (lines 145-167):
  the entry pushed to \<open>results\<close>, and the unformatted confidence that line 170 hands
  to \<^verbatim>\<open>logRecognition\<close>.
\<close>

record result =
  res_name :: string
  res_confidence :: string
  res_isMatched :: bool
  res_distance :: jsnum

definition matchFace ::
  "(string \<Rightarrow> jsnum) \<Rightarrow> jsnum list \<Rightarrow> registered list \<Rightarrow> jsval \<Rightarrow> result \<times> jsnum" where
  "matchFace s2n inputDescriptor registeredFaces threshold =
     (let bestMatch = findBest s2n inputDescriptor registeredFaces
                        \<lparr>bm_name = ''Unknown'', bm_distance = PInf\<rparr>;
          isMatch = js_lt (bm_distance bestMatch) (ToNumber s2n threshold);
          confidence = confidenceOf (bm_distance bestMatch)
      in (\<lparr>res_name = bm_name bestMatch, res_confidence = toFixed2 confidence,
           res_isMatched = isMatch, res_distance = bm_distance bestMatch\<rparr>,
          confidence))"

section \<open>Recognition and enrolment\<close>

text \<open>
  The outer loop (lines 144-171). The promise of \<^verbatim>\<open>logRecognition\<close> is not awaited
  and its outcome is not used; the statements are taken in the order they are issued.
\<close>

fun recognizeLoop ::
  "(string \<Rightarrow> jsnum) \<Rightarrow> jsnum list list \<Rightarrow> registered list \<Rightarrow> jsval \<Rightarrow>
   result list \<Rightarrow> database \<Rightarrow> result list \<times> database" where
  "recognizeLoop s2n [] registeredFaces threshold results db = (results, db)"
| "recognizeLoop s2n (detection # rest) registeredFaces threshold results db =
     (case matchFace s2n detection registeredFaces threshold of
        (r, confidence) \<Rightarrow>
          recognizeLoop s2n rest registeredFaces threshold (results @ [r])
            (snd (logRecognition db (res_name r) confidence (res_isMatched r))))"

text \<open>
  \<^verbatim>\<open>recognizeFace\<close> (lines 133-178). The extractor \<^verbatim>\<open>detectFace\<close> is a parameter:
  it maps an image path to the descriptors of the faces it found, or to \<open>None\<close>
  (\<open>null\<close>) when it failed. The default of the parameter \<open>threshold\<close> applies when the
  argument is \<open>undefined\<close>.
\<close>

datatype recognition = Failure string "string option" | Success "result list"

definition recognizeFace ::
  "(string \<Rightarrow> jsnum) \<Rightarrow> (string \<Rightarrow> jsnum list list option) \<Rightarrow> database \<Rightarrow> string \<Rightarrow> jsval \<Rightarrow>
   recognition \<times> database" where
  "recognizeFace s2n detectFace db imagePath threshold =
     (let threshold = (if threshold = Undefined then Number (Fin (1 / 2)) else threshold) in
      case detectFace imagePath of
        None \<Rightarrow> (Failure ''No face detected in image'' None, db)
      | Some detections \<Rightarrow>
          if length detections = 0 then (Failure ''No face detected in image'' None, db)
          else
            (case getAllFaces db of
               Inl err \<Rightarrow> (Failure ''Error during face recognition'' (Some err), db)
             | Inr registeredFaces \<Rightarrow>
                 (case recognizeLoop s2n detections registeredFaces threshold [] db of
                    (results, db') \<Rightarrow> (Success results, db'))))"

text \<open>
  The handlers of \<^verbatim>\<open>POST /api/register\<close> (lines 230-259) and
  \<^verbatim>\<open>POST /api/recognize\<close> (lines 262-275). The fields \<open>name\<close> and \<open>imagePath\<close> of
  the body are absent (\<open>None\<close>) or a string; \<open>threshold\<close> is any value.
\<close>

datatype response =
  Status400 string
| Status500 string
| RegisterJson string int
| RecognizeJson recognition

definition field :: "string option \<Rightarrow> jsval" where
  "field f = (case f of None \<Rightarrow> Undefined | Some s \<Rightarrow> String s)"

definition text_of :: "string option \<Rightarrow> string" where
  "text_of f = (case f of None \<Rightarrow> ''undefined'' | Some s \<Rightarrow> s)"

definition api_register ::
  "(string \<Rightarrow> jsnum list list option) \<Rightarrow> database \<Rightarrow> string option \<Rightarrow> string option \<Rightarrow>
   response \<times> database" where
  "api_register detectFace db name imagePath =
     (if \<not> truthy (field name) \<or> \<not> truthy (field imagePath)
      then (Status400 ''Name and image path are required'', db)
      else
        (case detectFace (text_of imagePath) of
           None \<Rightarrow> (Status400 ''No face detected in the provided image'', db)
         | Some detections \<Rightarrow>
             if length detections = 0
             then (Status400 ''No face detected in the provided image'', db)
             else if length detections > 1
             then (Status400
               ''Multiple faces detected. Please provide an image with only one face'', db)
             else
               (let descriptor = detections ! 0 in
                case registerFace db (text_of name) descriptor (text_of imagePath) of
                  (Inl err, db') \<Rightarrow> (Status500 err, db')
                | (Inr faceId, db') \<Rightarrow>
                    (RegisterJson (''Face registered successfully for '' @ text_of name) faceId,
                     db'))))"

definition api_recognize ::
  "(string \<Rightarrow> jsnum) \<Rightarrow> (string \<Rightarrow> jsnum list list option) \<Rightarrow> database \<Rightarrow> string option \<Rightarrow>
   jsval \<Rightarrow> response \<times> database" where
  "api_recognize s2n detectFace db imagePath threshold =
     (if \<not> truthy (field imagePath) then (Status400 ''Image path is required'', db)
      else
        (case recognizeFace s2n detectFace db (text_of imagePath)
                (if truthy threshold then threshold else Number (Fin (1 / 2))) of
           (result, db') \<Rightarrow> (RecognizeJson result, db')))"

section \<open>Vocabulary of the specification\<close>

text \<open>
  The Euclidean distance of the specification, \<open>sqrt (\<Sum> (query\<^sub>i - candidate\<^sub>i)\<^sup>2)\<close>,
  summed from the first component on, with every operation rounded to a double.
\<close>

definition squared_difference :: "jsnum \<Rightarrow> jsnum \<Rightarrow> jsnum" where
  "squared_difference x y = (let diff = fl (js_sub x y) in fl (js_mul diff diff))"

definition euclidean_distance :: "jsnum list \<Rightarrow> jsnum list \<Rightarrow> jsnum" where
  "euclidean_distance query candidate =
     fl (js_sqrt (foldl (\<lambda>s (x, y). fl (js_add s (squared_difference x y))) (Fin 0)
                   (zip query candidate)))"

text \<open>
  The distance of an enrolled record from a query, as the program computes it; a finite
  number; and a value that is \<open>NaN\<close> or at least 0, as every computed distance is.
\<close>

definition computed_distance :: "(string \<Rightarrow> jsnum) \<Rightarrow> jsnum list \<Rightarrow> registered \<Rightarrow> jsnum" where
  "computed_distance s2n q f = calculateDistance s2n q (reg_descriptor f)"

fun is_finite :: "jsnum \<Rightarrow> bool" where
  "is_finite (Fin a) = True"
| "is_finite x = False"


text \<open>Three enrolled records, the database that holds them, a record of another
  dimension, a record far away, and two ledgers of five entries, used to evaluate the
  operations.\<close>

definition alice :: registered where
  "alice = \<lparr>reg_id = 1, reg_name = ''Alice'',
             reg_descriptor = [Number (Fin 3), Number (Fin 4)]\<rparr>"

definition bob :: registered where
  "bob = \<lparr>reg_id = 2, reg_name = ''Bob'',
           reg_descriptor = [Number (Fin 0), Number (Fin (1 / 4))]\<rparr>"

definition carol :: registered where
  "carol = \<lparr>reg_id = 3, reg_name = ''Carol'',
             reg_descriptor = [Number (Fin (1 / 4)), Number (Fin 0)]\<rparr>"

definition short :: registered where
  "short = \<lparr>reg_id = 4, reg_name = ''Short'', reg_descriptor = [Number (Fin 0)]\<rparr>"

definition far :: registered where
  "far = \<lparr>reg_id = 5, reg_name = ''Far'', reg_descriptor = [Number (Fin (2 ^ 600))]\<rparr>"

definition alice_row :: face_row where
  "alice_row = \<lparr>face_id = 1, face_name = ''Alice'', face_descriptor = [JNum 3, JNum 4],
                 face_timestamp = 0, face_image_path = ''alice.png''\<rparr>"

definition bob_row :: face_row where
  "bob_row = \<lparr>face_id = 2, face_name = ''Bob'', face_descriptor = [JNum 0, JNum (1 / 4)],
               face_timestamp = 0, face_image_path = ''bob.png''\<rparr>"

definition carol_row :: face_row where
  "carol_row = \<lparr>face_id = 3, face_name = ''Carol'', face_descriptor = [JNum (1 / 4), JNum 0],
                 face_timestamp = 0, face_image_path = ''carol.png''\<rparr>"

definition store3 :: database where
  "store3 = \<lparr>faces = [alice_row, bob_row, carol_row], faces_seq = 3,
              recognition_logs = [], logs_seq = 0, clock = 100, fault = None\<rparr>"

definition entry :: "int \<Rightarrow> nat \<Rightarrow> log_row" where
  "entry i t = \<lparr>log_id = i, log_matched_name = ''Unknown'', log_confidence = Fin 0,
                log_timestamp = t, log_status = ''unmatched''\<rparr>"

definition ledger5 :: database where
  "ledger5 = \<lparr>faces = [], faces_seq = 0,
               recognition_logs = [entry 1 10, entry 2 20, entry 3 30, entry 4 40, entry 5 50],
               logs_seq = 5, clock = 100, fault = None\<rparr>"

definition burst5 :: database where
  "burst5 = \<lparr>faces = [], faces_seq = 0,
              recognition_logs = [entry 1 10, entry 2 10, entry 3 10, entry 4 10, entry 5 10],
              logs_seq = 5, clock = 100, fault = None\<rparr>"

section \<open>Properties of the number operations\<close>

lemma js_lt_PInf_left [simp]: "js_lt PInf y = False"
  by (cases y) simp_all

lemma js_lt_NInf_right [simp]: "js_lt x NInf = False"
  by (cases x) simp_all

lemma js_lt_NaN_right [simp]: "js_lt x NaN = False"
  by (cases x) simp_all

lemma js_lt_trans: "js_lt x y \<Longrightarrow> js_lt y z \<Longrightarrow> js_lt x z"
  by (cases x; cases y; cases z) simp_all

lemma js_le_lt_trans: "js_le x y \<Longrightarrow> js_lt y z \<Longrightarrow> js_lt x z"
  by (cases x; cases y; cases z) simp_all

lemma js_lt_imp_not_le: "js_lt x y \<Longrightarrow> \<not> js_le y x"
  by (cases x; cases y) simp_all

lemma confidenceOf_Fin: "confidenceOf (Fin x) = Fin (max 0 (100 - x * 100))"
  by (simp add: confidenceOf_def js_sub_def max_def)

lemma confidenceOf_PInf: "confidenceOf PInf = Fin 0"
  by (simp add: confidenceOf_def js_sub_def)

lemma toFixed2_zero: "toFixed2 (Fin 0) = ''0.00''"
  by (simp add: toFixed2.simps round2_def digits.simps digit_def)

subsection \<open>Rounding to a double\<close>

lemma binade_unique:
  assumes "power_int 2 e \<le> x" "x < power_int 2 (e + 1)" "- 1022 \<le> e" "e \<le> int k - 1022"
  shows "binade x k = e"
  using assms(4)
proof (induction k)
  case 0
  with assms(3) show ?case by simp
next
  case (Suc k)
  show ?case
  proof (cases "power_int 2 (int k - 1021) \<le> x")
    case True
    then have lt: "power_int (2::real) (int k - 1021) < power_int 2 (e + 1)"
      using assms(2) by simp
    have "int k - 1021 < e + 1"
    proof (rule ccontr)
      assume "\<not> int k - 1021 < e + 1"
      then have "e + 1 \<le> int k - 1021" by simp
      then have "power_int (2::real) (e + 1) \<le> power_int 2 (int k - 1021)"
        by (intro power_int_increasing) simp_all
      with lt show False by simp
    qed
    with Suc.prems True show ?thesis by simp
  next
    case False
    with assms(1) have "e \<noteq> int k - 1021" by auto
    with Suc.prems have "e \<le> int k - 1022" by simp
    from Suc.IH [OF this] False show ?thesis by simp
  qed
qed

lemma round_half_even_of_int: "round_half_even (of_int n) = n"
  by (simp add: round_half_even_def)


text \<open>A double is left as it is.\<close>

lemma to_double_exact:
  assumes "power_int 2 e \<le> \<bar>x\<bar>" "\<bar>x\<bar> < power_int 2 (e + 1)" "- 1022 \<le> e" "e \<le> 1023"
    and "\<bar>x\<bar> = of_int n * power_int 2 (e - 52)"
    and "\<bar>x\<bar> < 2 ^ 1024 - 2 ^ 970"
  shows "to_double x = Fin x"
proof -
  have b: "quantum x = e - 52"
    unfolding quantum_def using assms(1-4) by (simp add: binade_unique)
  have "\<bar>x\<bar> / power_int 2 (e - 52) = of_int n"
    using assms(5) by simp
  then have "round_half_even (\<bar>x\<bar> / power_int 2 (quantum x)) = n"
    by (simp add: b round_half_even_of_int)
  then have "sgn x * of_int (round_half_even (\<bar>x\<bar> / power_int 2 (quantum x)))
               * power_int 2 (quantum x) = sgn x * \<bar>x\<bar>"
    using assms(5) by (simp add: b)
  then show ?thesis
    using assms(6) by (simp add: to_double_def sgn_mult_abs)
qed

lemma to_double_0 [simp]: "to_double 0 = Fin 0"
  by (simp add: to_double_def)

lemma to_double_values:
  "to_double (- 3) = Fin (- 3)" "to_double (- 4) = Fin (- 4)" "to_double 5 = Fin 5"
  "to_double 9 = Fin 9" "to_double 16 = Fin 16" "to_double 25 = Fin 25"
  "to_double (- (1 / 4)) = Fin (- (1 / 4))" "to_double (1 / 4) = Fin (1 / 4)"
  "to_double (1 / 16) = Fin (1 / 16)"
  "to_double (- (2 ^ 600)) = Fin (- (2 ^ 600))"
proof -
  show "to_double (- 3) = Fin (- 3)"
    by (rule to_double_exact [where e = 1 and n = "3 * 2 ^ 51"]) simp_all
  show "to_double (- 4) = Fin (- 4)"
    by (rule to_double_exact [where e = 2 and n = "2 ^ 52"]) simp_all
  show "to_double 5 = Fin 5"
    by (rule to_double_exact [where e = 2 and n = "5 * 2 ^ 50"]) simp_all
  show "to_double 9 = Fin 9"
    by (rule to_double_exact [where e = 3 and n = "9 * 2 ^ 49"]) simp_all
  show "to_double 16 = Fin 16"
    by (rule to_double_exact [where e = 4 and n = "2 ^ 52"]) simp_all
  show "to_double 25 = Fin 25"
    by (rule to_double_exact [where e = 4 and n = "25 * 2 ^ 48"]) simp_all
  show "to_double (- (1 / 4)) = Fin (- (1 / 4))"
    by (rule to_double_exact [where e = "- 2" and n = "2 ^ 52"]) simp_all
  show "to_double (1 / 4) = Fin (1 / 4)"
    by (rule to_double_exact [where e = "- 2" and n = "2 ^ 52"]) simp_all
  show "to_double (1 / 16) = Fin (1 / 16)"
    by (rule to_double_exact [where e = "- 4" and n = "2 ^ 52"]) simp_all
  show "to_double (- (2 ^ 600)) = Fin (- (2 ^ 600))"
    by (rule to_double_exact [where e = 600 and n = "2 ^ 52"]) simp_all
qed

text \<open>A sum absorbs a term below half the spacing, and a product can overflow.\<close>

lemma to_double_absorbs: "to_double (1 + 1 / 10 ^ 18) = Fin 1"
proof -
  define x :: real where "x = 1 + 1 / 10 ^ 18"
  have x: "1 \<le> x" "x < 2" "0 < x" "x * 2 ^ 52 < 2 ^ 52 + 1 / 2"
    by (simp_all add: x_def)
  have q: "quantum x = - 52"
    unfolding quantum_def using x by (simp add: binade_unique [where e = 0])
  have f: "\<lfloor>x * 2 ^ 52\<rfloor> = 2 ^ 52"
    using x by (intro floor_unique) simp_all
  have "round_half_even (x * 2 ^ 52) = 2 ^ 52"
    using x(4) f by (simp add: round_half_even_def Let_def)
  moreover have "\<bar>x\<bar> / power_int 2 (quantum x) = x * 2 ^ 52"
    using x by (simp add: q power_int_minus field_simps)
  moreover have "\<bar>x\<bar> < 2 ^ 1024 - 2 ^ 970"
    using x by simp
  ultimately have "to_double x = Fin 1"
    using x by (simp add: to_double_def q power_int_minus)
  then show ?thesis by (simp only: x_def)
qed

lemma to_double_overflows: "to_double (2 ^ 600 * 2 ^ 600) = PInf"
  by (simp add: to_double_def)



section \<open>The matcher\<close>

text \<open>The distances of the example records from the origin, and of a record of another
  dimension and of a record far away.\<close>

lemma calculateDistance_three:
  "calculateDistance s2n [Fin 0, Fin 0] (reg_descriptor alice) = Fin 5"
  "calculateDistance s2n [Fin 0, Fin 0] (reg_descriptor bob) = Fin (1 / 4)"
  "calculateDistance s2n [Fin 0, Fin 0] (reg_descriptor carol) = Fin (1 / 4)"
proof -
  have sq: "sqrt 25 = 5" "sqrt (1 / 16) = 1 / 4"
    by (rule real_sqrt_unique; simp add: power2_eq_square)+
  show "calculateDistance s2n [Fin 0, Fin 0] (reg_descriptor alice) = Fin 5"
    by (simp add: calculateDistance_def calculateDistance_for.simps alice_def index_def
        js_sub_def to_double_values sq)
  show "calculateDistance s2n [Fin 0, Fin 0] (reg_descriptor bob) = Fin (1 / 4)"
    by (simp add: calculateDistance_def calculateDistance_for.simps bob_def index_def
        js_sub_def to_double_values sq)
  show "calculateDistance s2n [Fin 0, Fin 0] (reg_descriptor carol) = Fin (1 / 4)"
    by (simp add: calculateDistance_def calculateDistance_for.simps carol_def index_def
        js_sub_def to_double_values sq)
qed

lemma calculateDistance_short:
  "calculateDistance s2n [Fin 0, Fin 0] (reg_descriptor short) = NaN"
  by (simp add: calculateDistance_def calculateDistance_for.simps short_def index_def
      js_sub_def)

lemma calculateDistance_far:
  "calculateDistance s2n [Fin 0] (reg_descriptor far) = PInf"
  by (simp add: calculateDistance_def calculateDistance_for.simps far_def index_def
      js_sub_def to_double_values(10) [simplified] to_double_overflows [simplified])

text \<open>
  The loop of \<^verbatim>\<open>calculateDistance\<close> evaluates the Euclidean distance in double
  arithmetic; against a record of fewer components than the query it yields \<open>NaN\<close>.
\<close>

lemma js_sub_NaN [simp]: "js_sub x NaN = NaN"
  by (cases x) (simp_all add: js_sub_def)

lemma js_add_NaN_right [simp]: "js_add x NaN = NaN"
  by (cases x) simp_all

lemma calculateDistance_for_NaN: "calculateDistance_for s2n q d i NaN = NaN"
proof (induction "length q - i" arbitrary: i)
  case 0
  then show ?case
    by (simp add: calculateDistance_for.simps [of s2n q d i])
next
  case (Suc n)
  then have "n = length q - (i + 1)" by simp
  from Suc.hyps(1) [OF this] show ?case
    by (simp add: calculateDistance_for.simps [of s2n q d i] Let_def)
qed

lemma calculateDistance_for_short:
  assumes "length d < length q" "i \<le> length d"
  shows "calculateDistance_for s2n q d i s = NaN"
  using assms(2)
proof (induction "length d - i" arbitrary: i s)
  case 0
  then have i: "i = length d" by simp
  with assms(1) show ?case
    by (simp add: calculateDistance_for.simps [of s2n q d "length d"] index_def Let_def
        calculateDistance_for_NaN)
next
  case (Suc n)
  then have "n = length d - (i + 1)" "i + 1 \<le> length d" "i < length q"
    using assms(1) by simp_all
  from Suc.hyps(1) [OF this(1,2)] this(3) show ?case
    by (simp add: calculateDistance_for.simps [of s2n q d i] Let_def)
qed

lemma calculateDistance_for_zip:
  assumes "length q \<le> length d" "i \<le> length q"
  shows "calculateDistance_for s2n q d i s =
           foldl (\<lambda>s (x, y). fl (js_add s (squared_difference x y))) s
             (zip (drop i q) (drop i (map (ToNumber s2n) d)))"
  using assms(2)
proof (induction "length q - i" arbitrary: i s)
  case 0
  then show ?case
    by (simp add: calculateDistance_for.simps [of s2n q d i])
next
  case (Suc n)
  then have i: "i < length q" "i < length d"
    using assms(1) by simp_all
  have dq: "drop i q = q ! i # drop (Suc i) q"
    using i by (simp add: Cons_nth_drop_Suc)
  have dd: "drop i (map (ToNumber s2n) d) =
            ToNumber s2n (d ! i) # drop (Suc i) (map (ToNumber s2n) d)"
    using i by (metis Cons_nth_drop_Suc length_map nth_map)
  have "n = length q - (i + 1)" "i + 1 \<le> length q"
    using Suc.hyps(2) i by simp_all
  from Suc.hyps(1) [OF this] show ?case
    using i
    by (simp add: calculateDistance_for.simps [of s2n q d i] dq dd index_def Let_def
        squared_difference_def)
qed

lemma calculateDistance_euclidean:
  "calculateDistance s2n q d =
     (if length d < length q then NaN
      else euclidean_distance q (map (ToNumber s2n) d))"
  by (simp add: calculateDistance_def euclidean_distance_def calculateDistance_for_short
      calculateDistance_for_zip)

text \<open>The inner loop returns its starting value, or the first record of least computed
  distance.\<close>

lemma findBest_first_least:
  "(findBest s2n q fs best = best
      \<and> (\<forall>f\<in>set fs. \<not> js_lt (computed_distance s2n q f) (bm_distance best)))
   \<or> (\<exists>pre f post. fs = pre @ f # post
        \<and> findBest s2n q fs best =
            \<lparr>bm_name = reg_name f, bm_distance = computed_distance s2n q f\<rparr>
        \<and> js_lt (computed_distance s2n q f) (bm_distance best)
        \<and> (\<forall>g\<in>set pre. \<not> js_le (computed_distance s2n q g) (computed_distance s2n q f))
        \<and> (\<forall>g\<in>set post. \<not> js_lt (computed_distance s2n q g) (computed_distance s2n q f)))"
proof (induction fs arbitrary: best)
  case Nil
  then show ?case by simp
next
  case (Cons a fs)
  let ?d = "computed_distance s2n q"
  have da: "calculateDistance s2n q (reg_descriptor a) = ?d a"
    by (simp add: computed_distance_def)
  show ?case
  proof (cases "js_lt (?d a) (bm_distance best)")
    case True
    let ?b = "\<lparr>bm_name = reg_name a, bm_distance = ?d a\<rparr>"
    have step: "findBest s2n q (a # fs) best = findBest s2n q fs ?b"
      using True da by simp
    from Cons.IH [of ?b]
    consider (keep) "findBest s2n q fs ?b = ?b"
        "\<forall>f\<in>set fs. \<not> js_lt (?d f) (bm_distance ?b)"
      | (later) pre f post where "fs = pre @ f # post"
        "findBest s2n q fs ?b = \<lparr>bm_name = reg_name f, bm_distance = ?d f\<rparr>"
        "js_lt (?d f) (bm_distance ?b)"
        "\<forall>g\<in>set pre. \<not> js_le (?d g) (?d f)" "\<forall>g\<in>set post. \<not> js_lt (?d g) (?d f)"
      by blast
    then show ?thesis
    proof cases
      case keep
      then have "a # fs = [] @ a # fs \<and> findBest s2n q (a # fs) best = ?b
          \<and> js_lt (?d a) (bm_distance best)
          \<and> (\<forall>g\<in>set []. \<not> js_le (?d g) (?d a)) \<and> (\<forall>g\<in>set fs. \<not> js_lt (?d g) (?d a))"
        using step True by simp
      then show ?thesis by blast
    next
      case later
      from later(3) have lt: "js_lt (?d f) (?d a)" by simp
      then have "js_lt (?d f) (bm_distance best)"
        using True by (rule js_lt_trans)
      moreover have "\<not> js_le (?d a) (?d f)"
        using lt by (rule js_lt_imp_not_le)
      ultimately have "a # fs = (a # pre) @ f # post
          \<and> findBest s2n q (a # fs) best = \<lparr>bm_name = reg_name f, bm_distance = ?d f\<rparr>
          \<and> js_lt (?d f) (bm_distance best)
          \<and> (\<forall>g\<in>set (a # pre). \<not> js_le (?d g) (?d f)) \<and> (\<forall>g\<in>set post. \<not> js_lt (?d g) (?d f))"
        using later(1,2,4,5) step by simp
      then show ?thesis by blast
    qed
  next
    case False
    have step: "findBest s2n q (a # fs) best = findBest s2n q fs best"
      using False da by simp
    from Cons.IH [of best]
    consider (keep) "findBest s2n q fs best = best"
        "\<forall>f\<in>set fs. \<not> js_lt (?d f) (bm_distance best)"
      | (later) pre f post where "fs = pre @ f # post"
        "findBest s2n q fs best = \<lparr>bm_name = reg_name f, bm_distance = ?d f\<rparr>"
        "js_lt (?d f) (bm_distance best)"
        "\<forall>g\<in>set pre. \<not> js_le (?d g) (?d f)" "\<forall>g\<in>set post. \<not> js_lt (?d g) (?d f)"
      by blast
    then show ?thesis
    proof cases
      case keep
      then show ?thesis using step False by simp
    next
      case later
      have "\<not> js_le (?d a) (?d f)"
        using False later(3) js_le_lt_trans by blast
      then have "a # fs = (a # pre) @ f # post
          \<and> findBest s2n q (a # fs) best = \<lparr>bm_name = reg_name f, bm_distance = ?d f\<rparr>
          \<and> js_lt (?d f) (bm_distance best)
          \<and> (\<forall>g\<in>set (a # pre). \<not> js_le (?d g) (?d f)) \<and> (\<forall>g\<in>set post. \<not> js_lt (?d g) (?d f))"
        using later step by simp
      then show ?thesis by blast
    qed
  qed
qed

lemma findBest_three:
  "findBest s2n [Fin 0, Fin 0] [alice, bob, carol] \<lparr>bm_name = ''Unknown'', bm_distance = PInf\<rparr> =
     \<lparr>bm_name = reg_name bob, bm_distance = Fin (1 / 4)\<rparr>"
  by (simp add: calculateDistance_three Let_def)

lemma toFixed2_75: "toFixed2 (Fin 75) = ''75.00''"
  by (simp add: toFixed2.simps round2_def digits.simps digit_def)

lemma matchFace_three:
  "matchFace s2n [Fin 0, Fin 0] [alice, bob, carol] t =
     (\<lparr>res_name = ''Bob'', res_confidence = ''75.00'',
       res_isMatched = js_lt (Fin (1 / 4)) (ToNumber s2n t), res_distance = Fin (1 / 4)\<rparr>,
      Fin 75)"
proof -
  have "reg_name bob = ''Bob''" by (simp add: bob_def)
  moreover have "confidenceOf (Fin (1 / 4)) = Fin 75" by (simp add: confidenceOf_Fin)
  ultimately show ?thesis
    unfolding matchFace_def findBest_three by (simp add: Let_def toFixed2_75)
qed

text \<open>
  Claim C1, as stated, fails: a non-empty enrolled set does not always yield a record.
  Against a record of another dimension the computed distance is \<open>NaN\<close>, and against a
  record so far away that the square overflows it is \<open>Infinity\<close>; neither is less than
  the starting distance \<open>Infinity\<close>, so the matcher reports \<open>Unknown\<close>.
\<close>

theorem matcher_nonempty_set_selects_nobody_counterexample:
  "fst (matchFace (\<lambda>s. NaN) [Fin 0, Fin 0] [short] (Number (Fin (1 / 2)))) =
     \<lparr>res_name = ''Unknown'', res_confidence = ''0.00'', res_isMatched = False,
       res_distance = PInf\<rparr>
   \<and> fst (matchFace (\<lambda>s. NaN) [Fin 0] [far] (Number PInf)) =
     \<lparr>res_name = ''Unknown'', res_confidence = ''0.00'', res_isMatched = False,
       res_distance = PInf\<rparr>"
  by (simp add: matchFace_def calculateDistance_short calculateDistance_far Let_def
      confidenceOf_PInf toFixed2_zero)

text \<open>
  Claim C1, amended. For every enrolled set and every query the matcher compares the
  distances that \<^verbatim>\<open>calculateDistance\<close> computes: the Euclidean distance evaluated in
  double arithmetic, or \<open>NaN\<close> for a record of fewer components than the query (the
  components a record has beyond those of the query are not read). If some record
  has a computed distance below \<open>Infinity\<close>, the matcher selects a record \<open>f\<close> of least
  computed distance: no record before \<open>f\<close> in the supplied order is as near (so the
  first of several nearest records wins), no record after it is nearer, the reported name
  and distance are those of \<open>f\<close>, and \<open>isMatched\<close> holds exactly when that distance is
  less than the threshold. If no record has such a distance (the set is empty, or every
  computed distance is \<open>NaN\<close> or \<open>Infinity\<close>), it reports \<open>Unknown\<close>, the distance
  \<open>Infinity\<close> and no match.
\<close>

theorem matcher_selects_first_least_computed_distance:
  "((\<forall>f\<in>set registeredFaces. \<not> js_lt (computed_distance s2n q f) PInf) \<longrightarrow>
      fst (matchFace s2n q registeredFaces threshold) =
        \<lparr>res_name = ''Unknown'', res_confidence = ''0.00'', res_isMatched = False,
          res_distance = PInf\<rparr>)
   \<and> ((\<exists>f\<in>set registeredFaces. js_lt (computed_distance s2n q f) PInf) \<longrightarrow>
      (\<exists>pre f post. registeredFaces = pre @ f # post
         \<and> js_lt (computed_distance s2n q f) PInf
         \<and> (\<forall>g\<in>set pre. \<not> js_le (computed_distance s2n q g) (computed_distance s2n q f))
         \<and> (\<forall>g\<in>set post. \<not> js_lt (computed_distance s2n q g) (computed_distance s2n q f))
         \<and> fst (matchFace s2n q registeredFaces threshold) =
             \<lparr>res_name = reg_name f,
              res_confidence = toFixed2 (confidenceOf (computed_distance s2n q f)),
              res_isMatched = js_lt (computed_distance s2n q f) (ToNumber s2n threshold),
              res_distance = computed_distance s2n q f\<rparr>))
   \<and> (\<forall>f\<in>set registeredFaces.
        computed_distance s2n q f =
          (if length (reg_descriptor f) < length q then NaN
           else euclidean_distance q (map (ToNumber s2n) (reg_descriptor f))))"
proof (intro conjI impI ballI)
  fix f
  show "computed_distance s2n q f =
          (if length (reg_descriptor f) < length q then NaN
           else euclidean_distance q (map (ToNumber s2n) (reg_descriptor f)))"
    unfolding computed_distance_def by (rule calculateDistance_euclidean)
next
  let ?init = "\<lparr>bm_name = ''Unknown'', bm_distance = PInf\<rparr>"
  assume "\<forall>f\<in>set registeredFaces. \<not> js_lt (computed_distance s2n q f) PInf"
  with findBest_first_least [of s2n q registeredFaces ?init]
  have "findBest s2n q registeredFaces ?init = ?init"
    by auto
  then show "fst (matchFace s2n q registeredFaces threshold) =
        \<lparr>res_name = ''Unknown'', res_confidence = ''0.00'', res_isMatched = False,
          res_distance = PInf\<rparr>"
    by (simp add: matchFace_def Let_def confidenceOf_PInf toFixed2_zero)
next
  let ?init = "\<lparr>bm_name = ''Unknown'', bm_distance = PInf\<rparr>"
  assume "\<exists>f\<in>set registeredFaces. js_lt (computed_distance s2n q f) PInf"
  with findBest_first_least [of s2n q registeredFaces ?init]
  obtain pre f post where "registeredFaces = pre @ f # post"
    "findBest s2n q registeredFaces ?init =
       \<lparr>bm_name = reg_name f, bm_distance = computed_distance s2n q f\<rparr>"
    "js_lt (computed_distance s2n q f) PInf"
    "\<forall>g\<in>set pre. \<not> js_le (computed_distance s2n q g) (computed_distance s2n q f)"
    "\<forall>g\<in>set post. \<not> js_lt (computed_distance s2n q g) (computed_distance s2n q f)"
    by auto
  then have "registeredFaces = pre @ f # post
         \<and> js_lt (computed_distance s2n q f) PInf
         \<and> (\<forall>g\<in>set pre. \<not> js_le (computed_distance s2n q g) (computed_distance s2n q f))
         \<and> (\<forall>g\<in>set post. \<not> js_lt (computed_distance s2n q g) (computed_distance s2n q f))
         \<and> fst (matchFace s2n q registeredFaces threshold) =
             \<lparr>res_name = reg_name f,
              res_confidence = toFixed2 (confidenceOf (computed_distance s2n q f)),
              res_isMatched = js_lt (computed_distance s2n q f) (ToNumber s2n threshold),
              res_distance = computed_distance s2n q f\<rparr>"
    by (simp add: matchFace_def Let_def)
  then show "\<exists>pre f post. registeredFaces = pre @ f # post
         \<and> js_lt (computed_distance s2n q f) PInf
         \<and> (\<forall>g\<in>set pre. \<not> js_le (computed_distance s2n q g) (computed_distance s2n q f))
         \<and> (\<forall>g\<in>set post. \<not> js_lt (computed_distance s2n q g) (computed_distance s2n q f))
         \<and> fst (matchFace s2n q registeredFaces threshold) =
             \<lparr>res_name = reg_name f,
              res_confidence = toFixed2 (confidenceOf (computed_distance s2n q f)),
              res_isMatched = js_lt (computed_distance s2n q f) (ToNumber s2n threshold),
              res_distance = computed_distance s2n q f\<rparr>"
    by blast
qed

text \<open>The matcher on three records: Bob and Carol are equally near, Bob comes first.\<close>

theorem matcher_selects_first_least_computed_distance_witness:
  "fst (matchFace (\<lambda>s. NaN) [Fin 0, Fin 0] [alice, bob, carol] (Number (Fin (1 / 2)))) =
     \<lparr>res_name = ''Bob'', res_confidence = ''75.00'', res_isMatched = True,
       res_distance = Fin (1 / 4)\<rparr>"
proof -
  let ?d = "computed_distance (\<lambda>s. NaN) [Fin 0, Fin 0]"
  have d: "?d alice = Fin 5" "?d bob = Fin (1 / 4)" "?d carol = Fin (1 / 4)"
    by (simp_all add: computed_distance_def calculateDistance_three)
  have "\<exists>f\<in>set [alice, bob, carol]. js_lt (?d f) PInf"
    by (simp add: d)
  with matcher_selects_first_least_computed_distance
    [of "[alice, bob, carol]" "\<lambda>s. NaN" "[Fin 0, Fin 0]" "Number (Fin (1 / 2))"]
  obtain pre f post where dec: "[alice, bob, carol] = pre @ f # post"
    and before: "\<forall>g\<in>set pre. \<not> js_le (?d g) (?d f)"
    and after: "\<forall>g\<in>set post. \<not> js_lt (?d g) (?d f)"
    and res: "fst (matchFace (\<lambda>s. NaN) [Fin 0, Fin 0] [alice, bob, carol]
                 (Number (Fin (1 / 2)))) =
               \<lparr>res_name = reg_name f, res_confidence = toFixed2 (confidenceOf (?d f)),
                res_isMatched = js_lt (?d f) (ToNumber (\<lambda>s. NaN) (Number (Fin (1 / 2)))),
                res_distance = ?d f\<rparr>"
    by blast
  have "f = bob"
  proof (cases pre)
    case Nil
    with dec have "f = alice" "post = [bob, carol]" by simp_all
    with after show ?thesis by (simp add: d)
  next
    case (Cons a pre1)
    note c1 = this
    show ?thesis
    proof (cases pre1)
      case Nil
      with c1 dec show ?thesis by simp
    next
      case (Cons b pre2)
      note c2 = this
      show ?thesis
      proof (cases pre2)
        case Nil
        with c1 c2 dec have "f = carol" "pre = [alice, bob]" by simp_all
        with before show ?thesis by (simp add: d)
      next
        case (Cons c pre3)
        with c1 c2 dec show ?thesis by simp
      qed
    qed
  qed
  with res have "fst (matchFace (\<lambda>s. NaN) [Fin 0, Fin 0] [alice, bob, carol]
                   (Number (Fin (1 / 2)))) =
               \<lparr>res_name = reg_name bob, res_confidence = toFixed2 (confidenceOf (Fin (1 / 4))),
                res_isMatched = True, res_distance = Fin (1 / 4)\<rparr>"
    by (simp add: d)
  moreover have "reg_name bob = ''Bob''" by (simp add: bob_def)
  moreover have "toFixed2 (confidenceOf (Fin (1 / 4))) = ''75.00''"
    by (simp add: confidenceOf_Fin toFixed2_75)
  ultimately show ?thesis by simp
qed

text \<open>
  Claim C4. Against an empty enrolled set the matcher reports the name \<open>Unknown\<close>, the
  distance \<open>Infinity\<close>, no match, and the confidence 0 (the number 0 handed to the ledger,
  formatted as \<open>0.00\<close> in the response), for every query and every threshold.
\<close>

theorem matcher_empty_enrolled_set:
  "matchFace s2n inputDescriptor [] threshold =
     (\<lparr>res_name = ''Unknown'', res_confidence = ''0.00'', res_isMatched = False,
       res_distance = PInf\<rparr>, Fin 0)"
  by (simp add: matchFace_def confidenceOf_PInf toFixed2_zero)

theorem matcher_empty_enrolled_set_witness:
  "fst (matchFace (\<lambda>s. NaN) [Fin 1, Fin 2] [] (Number PInf)) =
     \<lparr>res_name = ''Unknown'', res_confidence = ''0.00'', res_isMatched = False,
       res_distance = PInf\<rparr>"
  using matcher_empty_enrolled_set [of "\<lambda>s. NaN" "[Fin 1, Fin 2]" "Number PInf"] by simp












section \<open>The descriptor store\<close>

text \<open>
  Claim C2, as stated, fails: \<^verbatim>\<open>registerFace\<close> does not compare the dimension of a
  descriptor with the stored ones. A store whose records have two components accepts a
  descriptor of three components, writes it and resolves with the new id.
\<close>

theorem registerFace_dimension_mismatch_counterexample:
  "map (\<lambda>row. length (face_descriptor row)) (faces store3) = [2, 2, 2]
   \<and> fst (registerFace store3 ''Dave'' [Fin 1, Fin 2, Fin 3] ''dave.png'') = Inr 4
   \<and> faces (snd (registerFace store3 ''Dave'' [Fin 1, Fin 2, Fin 3] ''dave.png'')) =
       faces store3 @
       [\<lparr>face_id = 4, face_name = ''Dave'', face_descriptor = [JNum 1, JNum 2, JNum 3],
         face_timestamp = 100, face_image_path = ''dave.png''\<rparr>]"
  by (simp add: registerFace_def store3_def alice_row_def bob_row_def carol_row_def
      JSON_stringify_def Let_def)

text \<open>
  Claim C2, amended. \<^verbatim>\<open>registerFace\<close> validates nothing: for every name and every
  descriptor, of whatever dimension, it resolves with the next id and appends one record
  holding the encoded descriptor, which \<^verbatim>\<open>getAllFaces\<close> then lists; it fails only when
  the storage layer reports an error, and then nothing is written.
\<close>

theorem registerFace_accepts_every_descriptor:
  "(fault db = None \<longrightarrow>
      (\<exists>before. getAllFaces db = Inr before
         \<and> fst (registerFace db name descriptor imagePath) = Inr (faces_seq db + 1)
         \<and> getAllFaces (snd (registerFace db name descriptor imagePath)) =
             Inr (before @
                  [\<lparr>reg_id = faces_seq db + 1, reg_name = name,
                    reg_descriptor = JSON_parse (JSON_stringify descriptor)\<rparr>])))
   \<and> (fault db = Some err \<longrightarrow> registerFace db name descriptor imagePath = (Inl err, db))"
  by (simp add: registerFace_def getAllFaces_def Let_def)

theorem registerFace_accepts_every_descriptor_witness:
  "fst (registerFace store3 ''Dave'' [Fin 1, Fin 2, Fin 3] ''dave.png'') = Inr 4
   \<and> getAllFaces (snd (registerFace store3 ''Dave'' [Fin 1, Fin 2, Fin 3] ''dave.png'')) =
       Inr [alice, bob, carol,
            \<lparr>reg_id = 4, reg_name = ''Dave'',
              reg_descriptor = [Number (Fin 1), Number (Fin 2), Number (Fin 3)]\<rparr>]"
  using registerFace_accepts_every_descriptor
    [of store3 "''Dave''" "[Fin 1, Fin 2, Fin 3]" "''dave.png''"]
  by (simp add: store3_def getAllFaces_def JSON_parse_def JSON_stringify_def
      alice_row_def bob_row_def carol_row_def alice_def bob_def carol_def)

text \<open>
  Claim C3, as stated, fails: deleting an id that is not in the store resolves with
  \<open>true\<close>, it does not fail.
\<close>

theorem deleteFace_absent_id_counterexample:
  "map face_id (faces store3) = [1, 2, 3] \<and> deleteFace store3 7 = (Inr True, store3)"
  by (simp add: deleteFace_def store3_def alice_row_def bob_row_def carol_row_def)

text \<open>
  Claim C3, amended. Unless the storage layer reports an error, \<^verbatim>\<open>deleteFace\<close>
  resolves with \<open>true\<close> for every id: the record of that id is removed and the other
  records stay, in their order; for an id that is not in the store nothing changes and
  no error is raised. The ledger is never touched.
\<close>

theorem deleteFace_always_succeeds:
  "fault db = None \<longrightarrow>
     fst (deleteFace db faceId) = Inr True
     \<and> faces (snd (deleteFace db faceId)) = filter (\<lambda>row. face_id row \<noteq> faceId) (faces db)
     \<and> faceId \<notin> face_id ` set (faces (snd (deleteFace db faceId)))
     \<and> recognition_logs (snd (deleteFace db faceId)) = recognition_logs db
     \<and> (faceId \<notin> face_id ` set (faces db) \<longrightarrow> deleteFace db faceId = (Inr True, db))"
proof -
  have "faceId \<notin> face_id ` set (faces db) \<Longrightarrow>
        filter (\<lambda>row. face_id row \<noteq> faceId) (faces db) = faces db"
    by (simp add: filter_id_conv image_iff) blast
  then show ?thesis
    by (auto simp: deleteFace_def)
qed

theorem deleteFace_always_succeeds_witness:
  "deleteFace store3 7 = (Inr True, store3)
   \<and> fst (deleteFace store3 2) = Inr True
   \<and> faces (snd (deleteFace store3 2)) = [alice_row, carol_row]"
  using deleteFace_always_succeeds [of store3 7] deleteFace_always_succeeds [of store3 2]
  by (simp add: store3_def alice_row_def bob_row_def carol_row_def)
text \<open>
  Claim C5, as stated, fails: a component that is \<open>NaN\<close>, \<open>Infinity\<close> or
  \<open>-Infinity\<close> is written as \<open>null\<close> and read back as \<open>null\<close>.
\<close>

theorem json_roundtrip_nonfinite_counterexample:
  "JSON_parse (JSON_stringify [Fin 1, NaN, PInf, NInf]) = [Number (Fin 1), Null, Null, Null]"
  by (simp add: JSON_parse_def JSON_stringify_def)

text \<open>
  Claim C5, amended. For every descriptor whose components are all finite numbers,
  decoding the stored encoding yields the same number in every component, also through
  \<^verbatim>\<open>registerFace\<close> and \<^verbatim>\<open>getAllFaces\<close>; in general every finite component is read
  back as it was and every other component as \<open>null\<close>. (That the text written for a
  finite number denotes exactly that number is the contract of the runtime's
  \<^verbatim>\<open>JSON.stringify\<close> and \<^verbatim>\<open>JSON.parse\<close>, which the model takes over.)
\<close>

theorem json_roundtrip_finite:
  "(list_all is_finite v \<longrightarrow> JSON_parse (JSON_stringify v) = map Number v)
   \<and> JSON_parse (JSON_stringify v) = map (\<lambda>x. if is_finite x then Number x else Null) v
   \<and> (list_all is_finite v \<and> fault db = None \<longrightarrow>
        (\<exists>before. getAllFaces db = Inr before
           \<and> getAllFaces (snd (registerFace db name v imagePath)) =
               Inr (before @ [\<lparr>reg_id = faces_seq db + 1, reg_name = name,
                                reg_descriptor = map Number v\<rparr>])))"
proof -
  have general: "JSON_parse (JSON_stringify v) = map (\<lambda>x. if is_finite x then Number x else Null) v"
    unfolding JSON_parse_def JSON_stringify_def map_map
  proof (rule map_cong [OF refl])
    fix x
    show "(value_of_json \<circ> json_of_number) x = (if is_finite x then Number x else Null)"
      by (cases x) simp_all
  qed
  have finite: "list_all is_finite v \<Longrightarrow> JSON_parse (JSON_stringify v) = map Number v"
    unfolding general by (simp add: list_all_iff)
  show ?thesis
    using general finite by (simp add: registerFace_def getAllFaces_def Let_def)
qed

theorem json_roundtrip_finite_witness:
  "JSON_parse (JSON_stringify [Fin (1 / 10), Fin (1 / 5), Fin (3 / 10)]) =
     [Number (Fin (1 / 10)), Number (Fin (1 / 5)), Number (Fin (3 / 10))]
   \<and> getAllFaces (snd (registerFace store3 ''Dave'' [Fin (1 / 10), Fin (1 / 5), Fin (3 / 10)]
        ''dave.png'')) =
       Inr [alice, bob, carol,
            \<lparr>reg_id = 4, reg_name = ''Dave'',
              reg_descriptor = [Number (Fin (1 / 10)), Number (Fin (1 / 5)),
                                Number (Fin (3 / 10))]\<rparr>]"
  using json_roundtrip_finite
    [of "[Fin (1 / 10), Fin (1 / 5), Fin (3 / 10)]" store3 "''Dave''" "''dave.png''"]
  by (simp add: store3_def getAllFaces_def JSON_parse_def
      alice_row_def bob_row_def carol_row_def alice_def bob_def carol_def)

section \<open>The enrolment flow\<close>

text \<open>
  Claim C8. In the enrol flow (the name and the image path being present), when the
  extractor reports no descriptor the request fails with the error
  \<open>No face detected in the provided image\<close>, and when it reports more than one it
  fails with the error \<open>Multiple faces detected\<close>; both are status 400, and in both
  cases the database is left as it was.
\<close>

theorem api_register_requires_exactly_one_face:
  "truthy (field name) \<and> truthy (field imagePath) \<longrightarrow>
     (detectFace (text_of imagePath) = Some [] \<longrightarrow>
        api_register detectFace db name imagePath =
          (Status400 ''No face detected in the provided image'', db))
     \<and> (\<forall>detections. detectFace (text_of imagePath) = Some detections \<and> 1 < length detections \<longrightarrow>
        api_register detectFace db name imagePath =
          (Status400 ''Multiple faces detected. Please provide an image with only one face'',
           db))"
  by (simp add: api_register_def)

theorem api_register_requires_exactly_one_face_witness:
  "api_register (\<lambda>path. Some []) store3 (Some ''Dave'') (Some ''dave.png'') =
     (Status400 ''No face detected in the provided image'', store3)
   \<and> api_register (\<lambda>path. Some [[Fin 1, Fin 2], [Fin 3, Fin 4]]) store3
       (Some ''Dave'') (Some ''dave.png'') =
     (Status400 ''Multiple faces detected. Please provide an image with only one face'',
      store3)"
  using api_register_requires_exactly_one_face
      [of "Some ''Dave''" "Some ''dave.png''" "\<lambda>path. Some []" store3]
    api_register_requires_exactly_one_face
      [of "Some ''Dave''" "Some ''dave.png''" "\<lambda>path. Some [[Fin 1, Fin 2], [Fin 3, Fin 4]]" store3]
  by (simp add: field_def)

section \<open>The recognition ledger\<close>

lemma order_by_timestamp_desc_mset:
  "mset (order_by_timestamp_desc rows) = mset rows"
  by (simp add: order_by_timestamp_desc_def)

lemma order_by_timestamp_desc_sorted:
  "sorted_wrt (\<lambda>a b. log_timestamp b \<le> log_timestamp a) (order_by_timestamp_desc rows)"
proof -
  have "sorted (map (\<lambda>row. - int (log_timestamp row)) (order_by_timestamp_desc rows))"
    unfolding order_by_timestamp_desc_def by (rule sorted_sort_key)
  then show ?thesis
    by (simp add: sorted_map)
qed

text \<open>
  Claim C7, as stated, fails in two ways. Entries written within one second carry the
  same timestamp, and among them the query returns the oldest first: of five such
  entries a limit of 2 returns the first two written, not the last two. And a limit of
  \<open>2\<^sup>6\<^sup>3\<close> is a positive integer that the query refuses with an error.
\<close>

theorem history_counterexample:
  "map log_id (recognition_logs burst5) = [1, 2, 3, 4, 5]
   \<and> getRecognitionHistory burst5 (Some 2) = Inr [entry 1 10, entry 2 10]
   \<and> getRecognitionHistory ledger5 (Some (2 ^ 63)) = Inl ''SQLITE_MISMATCH: datatype mismatch''"
  by (simp add: getRecognitionHistory_def sql_limit_def order_by_timestamp_desc_def
      burst5_def ledger5_def entry_def)

text \<open>
  Claim C7, amended. For a limit \<open>n\<close> with \<open>0 < n < 2\<^sup>6\<^sup>3\<close> the history query returns
  \<open>min n N\<close> of the \<open>N\<close> ledger entries, ordered by timestamp (whole seconds), latest
  first; no entry left out has a later timestamp than an entry returned; and when \<open>n\<close>
  is at least \<open>N\<close> all entries are returned. The order among entries of the same second
  is not part of the statement. A limit of \<open>2\<^sup>6\<^sup>3\<close> or more is refused with a datatype
  mismatch. (A storage error aside.)
\<close>

theorem history_latest_timestamps_first:
  "(0 < limit \<and> limit < 2 ^ 63 \<and> fault db = None \<longrightarrow>
     (\<exists>rows. getRecognitionHistory db (Some limit) = Inr rows
        \<and> length rows = min (nat limit) (length (recognition_logs db))
        \<and> sorted_wrt (\<lambda>a b. log_timestamp b \<le> log_timestamp a) rows
        \<and> mset rows \<subseteq># mset (recognition_logs db)
        \<and> (\<forall>r\<in>set rows. \<forall>r'\<in>#mset (recognition_logs db) - mset rows.
              log_timestamp r' \<le> log_timestamp r)
        \<and> (length (recognition_logs db) \<le> nat limit \<longrightarrow>
              mset rows = mset (recognition_logs db))))
   \<and> (2 ^ 63 \<le> limit \<and> fault db = None \<longrightarrow>
        getRecognitionHistory db (Some limit) = Inl ''SQLITE_MISMATCH: datatype mismatch'')"
proof (intro conjI impI)
  assume a: "0 < limit \<and> limit < 2 ^ 63 \<and> fault db = None"
  let ?all = "order_by_timestamp_desc (recognition_logs db)"
  let ?rows = "take (nat limit) ?all"
  have split: "?all = ?rows @ drop (nat limit) ?all" by simp
  have m: "mset ?all = mset (recognition_logs db)"
    by (rule order_by_timestamp_desc_mset)
  have len: "length ?all = length (recognition_logs db)"
    using m by (metis size_mset)
  have res: "getRecognitionHistory db (Some limit) = Inr ?rows"
    using a by (simp add: getRecognitionHistory_def sql_limit_def)
  have s: "sorted_wrt (\<lambda>a b. log_timestamp b \<le> log_timestamp a) (?rows @ drop (nat limit) ?all)"
    using order_by_timestamp_desc_sorted [of "recognition_logs db"] by simp
  have rest: "mset (recognition_logs db) - mset ?rows = mset (drop (nat limit) ?all)"
  proof -
    have "mset (recognition_logs db) = mset ?rows + mset (drop (nat limit) ?all)"
      using m by (metis split mset_append)
    then show ?thesis by simp
  qed
  have "length ?rows = min (nat limit) (length (recognition_logs db))"
    using len by simp
  moreover have "sorted_wrt (\<lambda>a b. log_timestamp b \<le> log_timestamp a) ?rows"
    using s unfolding sorted_wrt_append by blast
  moreover have "mset ?rows \<subseteq># mset (recognition_logs db)"
    using m by (metis split mset_append mset_subset_eq_add_left)
  moreover have "\<forall>r\<in>set ?rows. \<forall>r'\<in>#mset (recognition_logs db) - mset ?rows.
              log_timestamp r' \<le> log_timestamp r"
    using s unfolding sorted_wrt_append rest by simp
  moreover have "length (recognition_logs db) \<le> nat limit \<longrightarrow>
              mset ?rows = mset (recognition_logs db)"
    using m len by simp
  ultimately show "\<exists>rows. getRecognitionHistory db (Some limit) = Inr rows
        \<and> length rows = min (nat limit) (length (recognition_logs db))
        \<and> sorted_wrt (\<lambda>a b. log_timestamp b \<le> log_timestamp a) rows
        \<and> mset rows \<subseteq># mset (recognition_logs db)
        \<and> (\<forall>r\<in>set rows. \<forall>r'\<in>#mset (recognition_logs db) - mset rows.
              log_timestamp r' \<le> log_timestamp r)
        \<and> (length (recognition_logs db) \<le> nat limit \<longrightarrow>
              mset rows = mset (recognition_logs db))"
    using res by blast
next
  assume "2 ^ 63 \<le> limit \<and> fault db = None"
  then show "getRecognitionHistory db (Some limit) = Inl ''SQLITE_MISMATCH: datatype mismatch''"
    by (simp add: getRecognitionHistory_def)
qed

lemma history_ledger5:
  "getRecognitionHistory ledger5 (Some 2) = Inr [entry 5 50, entry 4 40]"
  by (simp add: getRecognitionHistory_def sql_limit_def order_by_timestamp_desc_def
      ledger5_def entry_def)

theorem history_latest_timestamps_first_witness:
  "getRecognitionHistory ledger5 (Some 2) = Inr [entry 5 50, entry 4 40]
   \<and> (\<exists>rows. getRecognitionHistory ledger5 (Some 2) = Inr rows \<and> length rows = 2
        \<and> sorted_wrt (\<lambda>a b. log_timestamp b \<le> log_timestamp a) rows)
   \<and> getRecognitionHistory ledger5 (Some (2 ^ 63)) = Inl ''SQLITE_MISMATCH: datatype mismatch''"
proof -
  have h: "0 < (2::int) \<and> (2::int) < 2 ^ 63 \<and> fault ledger5 = None"
    "(2::int) ^ 63 \<le> 2 ^ 63 \<and> fault ledger5 = None"
    by (simp_all add: ledger5_def)
  from h(1) history_latest_timestamps_first [of 2 ledger5]
  have "\<exists>rows. getRecognitionHistory ledger5 (Some 2) = Inr rows \<and> length rows = 2
        \<and> sorted_wrt (\<lambda>a b. log_timestamp b \<le> log_timestamp a) rows"
    by (auto simp: ledger5_def)
  moreover from h(2) history_latest_timestamps_first [of "2 ^ 63" ledger5]
  have "getRecognitionHistory ledger5 (Some (2 ^ 63)) = Inl ''SQLITE_MISMATCH: datatype mismatch''"
    by blast
  ultimately show ?thesis
    using history_ledger5 by simp
qed

section \<open>The recognition flow\<close>

lemma matchFace_fields:
  "snd (matchFace s2n d regs t) = confidenceOf (res_distance (fst (matchFace s2n d regs t)))"
  "res_confidence (fst (matchFace s2n d regs t)) =
     toFixed2 (confidenceOf (res_distance (fst (matchFace s2n d regs t))))"
  "res_isMatched (fst (matchFace s2n d regs t)) =
     js_lt (res_distance (fst (matchFace s2n d regs t))) (ToNumber s2n t)"
  "res_confidence (fst (matchFace s2n d regs t)) = toFixed2 (snd (matchFace s2n d regs t))"
  by (simp_all add: matchFace_def Let_def)

lemma recognizeLoop_results:
  "fst (recognizeLoop s2n ds regs t results db) =
     results @ map (\<lambda>d. fst (matchFace s2n d regs t)) ds"
  by (induction ds arbitrary: results db) (simp_all add: split_beta)




lemma getAllFaces_store3: "getAllFaces store3 = Inr [alice, bob, carol]"
  by (simp add: getAllFaces_def store3_def JSON_parse_def alice_row_def bob_row_def
      carol_row_def alice_def bob_def carol_def)

lemma recognizeFace_store3_given:
  "t \<noteq> Undefined \<Longrightarrow>
   recognizeFace s2n (\<lambda>path. Some [[Fin 0, Fin 0]]) store3 p t =
     (Success [\<lparr>res_name = ''Bob'', res_confidence = ''75.00'',
                res_isMatched = js_lt (Fin (1 / 4)) (ToNumber s2n t),
                res_distance = Fin (1 / 4)\<rparr>],
      snd (logRecognition store3 ''Bob'' (Fin 75) (js_lt (Fin (1 / 4)) (ToNumber s2n t))))"
  by (simp add: recognizeFace_def getAllFaces_store3 matchFace_three)


lemma recognizeFace_detections:
  assumes "detectFace p = Some detections" "detections \<noteq> []" "getAllFaces db = Inr regs"
  shows "fst (recognizeFace s2n detectFace db p t) =
           Success (map (\<lambda>d. fst (matchFace s2n d regs
                      (if t = Undefined then Number (Fin (1 / 2)) else t))) detections)"
proof -
  let ?t = "if t = Undefined then Number (Fin (1 / 2)) else t"
  have "recognizeFace s2n detectFace db p t =
        (Success (fst (recognizeLoop s2n detections regs ?t [] db)),
         snd (recognizeLoop s2n detections regs ?t [] db))"
    using assms by (simp add: recognizeFace_def Let_def split_beta)
  then show ?thesis
    by (simp add: recognizeLoop_results)
qed

text \<open>
  Claim C9, as stated, fails: \<^verbatim>\<open>recognizeFace\<close> called with the threshold 0 keeps 0.
  A face at the distance 0.25 from Bob, which is below 0.5, is reported as not matched.
\<close>

theorem recognizeFace_keeps_zero_threshold_counterexample:
  "fst (recognizeFace (\<lambda>s. NaN) (\<lambda>path. Some [[Fin 0, Fin 0]]) store3 ''q.png''
          (Number (Fin 0))) =
     Success [\<lparr>res_name = ''Bob'', res_confidence = ''75.00'', res_isMatched = False,
               res_distance = Fin (1 / 4)\<rparr>]
   \<and> js_lt (Fin (1 / 4)) (Fin (1 / 2))"
  by (simp add: recognizeFace_store3_given)

text \<open>
  Claim C9, amended. For every request to the recognize endpoint whose threshold is
  falsy (0, \<open>NaN\<close>, \<open>null\<close>, \<open>false\<close>, the empty string) or missing, the handler puts
  0.5 in its place before it calls \<^verbatim>\<open>recognizeFace\<close>: the request is handled exactly
  as with the threshold 0.5, and the response holds, for every detected face in order,
  the matcher's result against 0.5, matched exactly when the distance is below 0.5.
  \<^verbatim>\<open>recognizeFace\<close> itself puts 0.5 in the place of an omitted (\<open>undefined\<close>)
  threshold only; any other threshold, 0 included, is used as given.
\<close>

theorem falsy_threshold_replaced_by_handler:
  "(\<not> truthy threshold \<longrightarrow>
      api_recognize s2n detectFace db imagePath threshold =
      api_recognize s2n detectFace db imagePath (Number (Fin (1 / 2))))
   \<and> (truthy (field imagePath) \<and> detectFace (text_of imagePath) = Some detections
        \<and> detections \<noteq> [] \<and> getAllFaces db = Inr registeredFaces \<longrightarrow>
      (\<not> truthy threshold \<longrightarrow>
         fst (api_recognize s2n detectFace db imagePath threshold) =
           RecognizeJson (Success (map (\<lambda>d. fst (matchFace s2n d registeredFaces
             (Number (Fin (1 / 2))))) detections)))
      \<and> fst (recognizeFace s2n detectFace db (text_of imagePath) Undefined) =
           Success (map (\<lambda>d. fst (matchFace s2n d registeredFaces
             (Number (Fin (1 / 2))))) detections)
      \<and> (threshold \<noteq> Undefined \<longrightarrow>
           fst (recognizeFace s2n detectFace db (text_of imagePath) threshold) =
             Success (map (\<lambda>d. fst (matchFace s2n d registeredFaces threshold)) detections))
      \<and> (\<forall>d\<in>set detections.
           res_isMatched (fst (matchFace s2n d registeredFaces (Number (Fin (1 / 2))))) =
           js_lt (res_distance (fst (matchFace s2n d registeredFaces (Number (Fin (1 / 2))))))
             (Fin (1 / 2))))"
proof (intro conjI impI ballI)
  assume "\<not> truthy threshold"
  then show "api_recognize s2n detectFace db imagePath threshold =
             api_recognize s2n detectFace db imagePath (Number (Fin (1 / 2)))"
    by (simp add: api_recognize_def)
next
  assume a: "truthy (field imagePath) \<and> detectFace (text_of imagePath) = Some detections
        \<and> detections \<noteq> [] \<and> getAllFaces db = Inr registeredFaces"
    and f: "\<not> truthy threshold"
  from a have "fst (recognizeFace s2n detectFace db (text_of imagePath) (Number (Fin (1 / 2)))) =
      Success (map (\<lambda>d. fst (matchFace s2n d registeredFaces (Number (Fin (1 / 2))))) detections)"
    by (simp add: recognizeFace_detections)
  with a f show "fst (api_recognize s2n detectFace db imagePath threshold) =
           RecognizeJson (Success (map (\<lambda>d. fst (matchFace s2n d registeredFaces
             (Number (Fin (1 / 2))))) detections))"
    by (simp add: api_recognize_def split_beta)
next
  assume a: "truthy (field imagePath) \<and> detectFace (text_of imagePath) = Some detections
        \<and> detections \<noteq> [] \<and> getAllFaces db = Inr registeredFaces"
  then show "fst (recognizeFace s2n detectFace db (text_of imagePath) Undefined) =
           Success (map (\<lambda>d. fst (matchFace s2n d registeredFaces
             (Number (Fin (1 / 2))))) detections)"
    by (simp add: recognizeFace_detections)
next
  assume a: "truthy (field imagePath) \<and> detectFace (text_of imagePath) = Some detections
        \<and> detections \<noteq> [] \<and> getAllFaces db = Inr registeredFaces"
    and t: "threshold \<noteq> Undefined"
  then show "fst (recognizeFace s2n detectFace db (text_of imagePath) threshold) =
             Success (map (\<lambda>d. fst (matchFace s2n d registeredFaces threshold)) detections)"
    by (simp add: recognizeFace_detections)
next
  fix d
  show "res_isMatched (fst (matchFace s2n d registeredFaces (Number (Fin (1 / 2))))) =
           js_lt (res_distance (fst (matchFace s2n d registeredFaces (Number (Fin (1 / 2))))))
             (Fin (1 / 2))"
    by (simp add: matchFace_fields(3))
qed

theorem falsy_threshold_replaced_by_handler_witness:
  "fst (api_recognize (\<lambda>s. NaN) (\<lambda>path. Some [[Fin 0, Fin 0]]) store3 (Some ''q.png'')
          (Number (Fin 0))) =
     RecognizeJson (Success [\<lparr>res_name = ''Bob'', res_confidence = ''75.00'',
       res_isMatched = True, res_distance = Fin (1 / 4)\<rparr>])"
proof -
  have "truthy (field (Some ''q.png''))
        \<and> (\<lambda>path. Some [[Fin 0, Fin 0]]) (text_of (Some ''q.png'')) = Some [[Fin 0, Fin 0]]
        \<and> [[Fin 0, Fin 0]] \<noteq> [] \<and> getAllFaces store3 = Inr [alice, bob, carol]"
    by (simp add: field_def getAllFaces_store3)
  moreover have "\<not> truthy (Number (Fin 0))" by simp
  ultimately have "fst (api_recognize (\<lambda>s. NaN) (\<lambda>path. Some [[Fin 0, Fin 0]]) store3
        (Some ''q.png'') (Number (Fin 0))) =
      RecognizeJson (Success (map (\<lambda>d. fst (matchFace (\<lambda>s. NaN) d [alice, bob, carol]
             (Number (Fin (1 / 2))))) [[Fin 0, Fin 0]]))"
    using falsy_threshold_replaced_by_handler
      [where threshold = "Number (Fin 0)" and s2n = "\<lambda>s. NaN"
        and detectFace = "\<lambda>path. Some [[Fin 0, Fin 0]]" and db = store3
        and imagePath = "Some ''q.png''" and detections = "[[Fin 0, Fin 0]]"
        and registeredFaces = "[alice, bob, carol]"]
    by blast
  then show ?thesis
    by (simp add: matchFace_three)
qed



end
